theory Spec2Isabelle
  imports Complex_Main "HOL-Library.Sublist"
begin

section \<open>Values of the host language\<close>

text \<open>
  Strings are lists of bytes, in UTF-8. A value of the source's type \<open>unknown\<close> is a
  JSON value: that is what \<open>JSON.parse\<close> returns and what tool arguments decoded from a
  model's answer are. Objects are association lists in insertion order; a key is looked
  up with \<open>map_of\<close>, and the order plays no part in a lookup.
\<close>

datatype json =
    JNull
  | JBool bool
  | JNum rat
  | JStr string
  | JArr "json list"
  | JObj "(string \<times> json) list"

text \<open>
  What the code can throw. The three \<open>TypeError\<close>s are raised by the engine, which also
  words their messages; \<open>Failure m\<close> is an \<open>Error\<close> object with message \<open>m\<close>, thrown by a
  collaborator (backend, tool, router) or by the deadline timer. Every value thrown is
  an \<open>Error\<close> object, as the handlers' \<open>err as Error\<close> takes it to be.
\<close>

datatype error =
    NotPrimitive
  | NotAFunction string
  | NotIterable
  | Failure string

text \<open>
  The parts of the platform the code calls and this repository does not define:
  \<open>JSON.parse\<close> (\<open>None\<close> when it throws \<open>SyntaxError\<close>), the rendering of a number as
  text, the wording of the engine's \<open>TypeError\<close>s, and \<open>crypto.randomUUID()\<close>, indexed by
  the turn of the loop that asks for it.
\<close>

record runtime =
  json_parse :: "string \<Rightarrow> json option"
  number_string :: "rat \<Rightarrow> string"
  type_error_message :: "error \<Rightarrow> string"
  randomUUID :: "nat \<Rightarrow> string"

definition message :: "runtime \<Rightarrow> error \<Rightarrow> string" where
  "message rt e = (case e of Failure m \<Rightarrow> m | _ \<Rightarrow> type_error_message rt e)"

text \<open>
  \<open>String(v)\<close>. An array is joined with commas, \<open>null\<close> elements rendering as nothing; a
  plain object renders as \<open>[object Object]\<close> unless it has an own key \<open>toString\<close>, which
  JSON can only bind to something that is not callable: then \<open>valueOf\<close> gives the object
  back and the conversion throws.
\<close>

fun js_String :: "runtime \<Rightarrow> json \<Rightarrow> error + string"
  and js_join :: "runtime \<Rightarrow> json list \<Rightarrow> error + string" where
  "js_String rt JNull = Inr ''null''"
| "js_String rt (JBool b) = Inr (if b then ''true'' else ''false'')"
| "js_String rt (JNum n) = Inr (number_string rt n)"
| "js_String rt (JStr s) = Inr s"
| "js_String rt (JArr xs) = js_join rt xs"
| "js_String rt (JObj kvs) =
     (if map_of kvs ''toString'' \<noteq> None then Inl NotPrimitive
      else Inr ''[object Object]'')"
| "js_join rt [] = Inr []"
| "js_join rt (x # xs) =
     (case (if x = JNull then Inr [] else js_String rt x) of
        Inl e \<Rightarrow> Inl e
      | Inr s \<Rightarrow>
          (if xs = [] then Inr s
           else (case js_join rt xs of
                   Inl e \<Rightarrow> Inl e
                 | Inr t \<Rightarrow> Inr (s @ '','' @ t))))"


subsection \<open>String operations\<close>

fun indexOf :: "string \<Rightarrow> char \<Rightarrow> int" where
  "indexOf [] c = - 1"
| "indexOf (x # xs) c =
     (if x = c then 0
      else (let r = indexOf xs c in if r = - 1 then - 1 else r + 1))"

definition lastIndexOf :: "string \<Rightarrow> char \<Rightarrow> int" where
  "lastIndexOf s c =
     (let r = indexOf (rev s) c
      in if r = - 1 then - 1 else int (length s) - 1 - r)"

definition slice :: "string \<Rightarrow> int \<Rightarrow> int \<Rightarrow> string" where
  "slice s a b =
     (let n = int (length s);
          from = (if a < 0 then max (n + a) 0 else min a n);
          to = (if b < 0 then max (n + b) 0 else min b n)
      in take (nat (to - from)) (drop (nat from) s))"

text \<open>
  The white space and the line terminators that \<open>trim\<close> strips, as byte sequences: TAB, LF, VT, FF, CR, SP, then U+00A0, U+1680, U+2000 to U+200A,
  U+2028, U+2029, U+202F, U+205F, U+3000 and U+FEFF.
\<close>

definition white_space :: "string list" where
  "white_space =
     [[CHR 0x09], [CHR 0x0A], [CHR 0x0B], [CHR 0x0C], [CHR 0x0D], [CHR 0x20],
      [CHR 0xC2, CHR 0xA0],
      [CHR 0xE1, CHR 0x9A, CHR 0x80],
      [CHR 0xE2, CHR 0x80, CHR 0x80], [CHR 0xE2, CHR 0x80, CHR 0x81],
      [CHR 0xE2, CHR 0x80, CHR 0x82], [CHR 0xE2, CHR 0x80, CHR 0x83],
      [CHR 0xE2, CHR 0x80, CHR 0x84], [CHR 0xE2, CHR 0x80, CHR 0x85],
      [CHR 0xE2, CHR 0x80, CHR 0x86], [CHR 0xE2, CHR 0x80, CHR 0x87],
      [CHR 0xE2, CHR 0x80, CHR 0x88], [CHR 0xE2, CHR 0x80, CHR 0x89],
      [CHR 0xE2, CHR 0x80, CHR 0x8A],
      [CHR 0xE2, CHR 0x80, CHR 0xA8], [CHR 0xE2, CHR 0x80, CHR 0xA9],
      [CHR 0xE2, CHR 0x80, CHR 0xAF],
      [CHR 0xE2, CHR 0x81, CHR 0x9F],
      [CHR 0xE3, CHR 0x80, CHR 0x80],
      [CHR 0xEF, CHR 0xBB, CHR 0xBF]]"

text \<open>How many bytes of white space a string starts with, or ends with; 0 for none.\<close>

definition leading_space :: "string \<Rightarrow> nat" where
  "leading_space s =
     (case List.find (\<lambda>w. prefix w s) white_space of None \<Rightarrow> 0 | Some w \<Rightarrow> length w)"

definition trailing_space :: "string \<Rightarrow> nat" where
  "trailing_space s =
     (case List.find (\<lambda>w. suffix w s) white_space of None \<Rightarrow> 0 | Some w \<Rightarrow> length w)"

function trimStart :: "string \<Rightarrow> string" where
  "trimStart s =
     (if leading_space s = 0 then s else trimStart (drop (leading_space s) s))"
  by pat_completeness auto
termination
proof (relation "measure length")
  fix s :: string
  assume "leading_space s \<noteq> 0"
  moreover have "\<And>w. w \<in> set white_space \<Longrightarrow> w \<noteq> []"
    by (auto simp: white_space_def)
  ultimately have "0 < leading_space s \<and> s \<noteq> []"
    unfolding leading_space_def
    by (auto split: option.splits simp: find_Some_iff dest!: nth_mem)
  then show "(drop (leading_space s) s, s) \<in> measure length"
    by simp
qed simp

function trimEnd :: "string \<Rightarrow> string" where
  "trimEnd s =
     (if trailing_space s = 0 then s
      else trimEnd (take (length s - trailing_space s) s))"
  by pat_completeness auto
termination
proof (relation "measure length")
  fix s :: string
  assume "trailing_space s \<noteq> 0"
  moreover have "\<And>w. w \<in> set white_space \<Longrightarrow> w \<noteq> []"
    by (auto simp: white_space_def)
  ultimately have "0 < trailing_space s \<and> s \<noteq> []"
    unfolding trailing_space_def
    by (auto split: option.splits simp: find_Some_iff dest!: nth_mem)
  then show "(take (length s - trailing_space s) s, s) \<in> measure length"
    by simp
qed simp

definition trim :: "string \<Rightarrow> string" where
  "trim s = trimEnd (trimStart s)"

text \<open>
  The code points of a string, as spreading or iterating it yields them: a byte and the
  continuation bytes (\<open>0x80\<close> to \<open>0xBF\<close>) that follow it.
\<close>

definition is_continuation :: "char \<Rightarrow> bool" where
  "is_continuation c = (128 \<le> (of_char c :: nat) \<and> (of_char c :: nat) < 192)"

function code_points :: "string \<Rightarrow> string list" where
  "code_points [] = []"
| "code_points (c # cs) =
     (c # takeWhile is_continuation cs) # code_points (dropWhile is_continuation cs)"
  by pat_completeness auto
termination
  by (relation "measure length") (auto simp: length_dropWhile_le less_Suc_eq_le)

text \<open>A natural number in decimal, as a template literal renders it.\<close>

fun string_of_nat :: "nat \<Rightarrow> string" where
  "string_of_nat n =
     (if n < 10 then [char_of (48 + n)]
      else string_of_nat (n div 10) @ [char_of (48 + n mod 10)])"

section \<open>Tool-call extraction\<close>

definition TOOL_ACTION_KEYS :: "string list" where
  "TOOL_ACTION_KEYS = [''action'', ''tool'', ''name'']"

record tool_call =
  tc_id :: string
  tc_name :: string
  tc_arguments :: "(string \<times> json) list"

text \<open>\<open>key in obj\<close> for a plain object.\<close>

definition has_key :: "string \<Rightarrow> (string \<times> json) list \<Rightarrow> bool" where
  "has_key k kvs = (map_of kvs k \<noteq> None)"

definition normalizeToolArguments :: "(string \<times> json) list \<Rightarrow> (string \<times> json) list" where
  "normalizeToolArguments args =
     (let n1 = (if \<not> has_key ''filename'' args
                then (case map_of args ''file_path'' of
                        Some v \<Rightarrow> args @ [(''filename'', v)]
                      | None \<Rightarrow> args)
                else args);
          n2 = (if \<not> has_key ''filename'' n1
                then (case map_of n1 ''path'' of
                        Some v \<Rightarrow> n1 @ [(''filename'', v)]
                      | None \<Rightarrow> n1)
                else n1)
      in n2)"

text \<open>
  The text between the first opening and the last closing brace, trimmed: the argument
  of \<open>JSON.parse\<close>.
\<close>

definition braceSlice :: "string \<Rightarrow> string" where
  "braceSlice text =
     trim (slice text (indexOf text CHR ''{'') (lastIndexOf text CHR ''}'' + 1))"

text \<open>
  The part of the extractor after a successful parse. Only a plain object can hold an
  alias key; \<open>null\<close> and the primitives are refused by the \<open>typeof\<close> test, and in an array
  no alias key is found, which leaves the name empty.
\<close>

definition toolCallOfParsed :: "runtime \<Rightarrow> string \<Rightarrow> json \<Rightarrow> error + tool_call option" where
  "toolCallOfParsed rt uid parsed =
     (case parsed of
        JObj kvs \<Rightarrow>
          (case List.find (\<lambda>key. has_key key kvs) TOOL_ACTION_KEYS of
             None \<Rightarrow> Inr None
           | Some actionKey \<Rightarrow>
               (case map_of kvs actionKey of
                  None \<Rightarrow> Inr None
                | Some v \<Rightarrow>
                    (case js_String rt v of
                       Inl e \<Rightarrow> Inl e
                     | Inr toolName \<Rightarrow>
                         (if toolName = [] then Inr None
                          else Inr (Some \<lparr>tc_id = uid, tc_name = toolName,
                                 tc_arguments = normalizeToolArguments
                                   (filter (\<lambda>kv. fst kv \<notin> set TOOL_ACTION_KEYS) kvs)\<rparr>)))))
      | _ \<Rightarrow> Inr None)"

definition extractToolCallFromText :: "runtime \<Rightarrow> string \<Rightarrow> string \<Rightarrow> error + tool_call option" where
  "extractToolCallFromText rt uid text =
     (if text = [] then Inr None
      else
        (let start = indexOf text CHR ''{'';
             end = lastIndexOf text CHR ''}''
         in if start = - 1 \<or> end = - 1 \<or> end \<le> start then Inr None
            else (case json_parse rt (braceSlice text) of
                    None \<Rightarrow> Inr None
                  | Some parsed \<Rightarrow> toolCallOfParsed rt uid parsed)))"

section \<open>Tools, backend and messages\<close>

text \<open>
  How an awaited call of a collaborator ends, seen from the sub-agent: it returns, it
  throws, or it has not settled by the time the deadline timer fires. The timer can only
  fire while such a call is in flight, so \<open>Pending\<close> is where the race against the
  deadline is lost.
\<close>

datatype 'a awaited = Settled 'a | Rejected error | Pending

record tool =
  tool_name :: string
  tool_execute :: "(string \<times> json) list \<Rightarrow> string awaited"

record message =
  msg_role :: string
  msg_content :: string
  msg_toolCalls :: "tool_call list option"
  msg_toolCallId :: "string option"

record response =
  resp_type :: string
  resp_content :: "string option"
  resp_toolCalls :: "tool_call list option"

text \<open>
  A backend. Its \<open>chat\<close> takes the number of calls made before (a backend may answer
  the same history differently the next time), the history and the granted tools.
\<close>

record provider =
  provider_id :: string
  chat :: "nat \<Rightarrow> message list \<Rightarrow> tool list \<Rightarrow> response awaited"

record sub_agent_config =
  cfg_task :: string
  cfg_role :: string
  cfg_provider :: provider
  cfg_tools :: "tool list"
  cfg_timeout :: "nat option"

record sub_agent_result =
  success :: bool
  response :: string
  iterations :: nat
  providerId :: string

definition SUB_AGENT_MAX_ITERATIONS :: nat where
  "SUB_AGENT_MAX_ITERATIONS = 10"

definition SUB_AGENT_TIMEOUT_MS :: nat where
  "SUB_AGENT_TIMEOUT_MS = 60000"

definition DEFAULT_SAFE_TOOLS :: "string list" where
  "DEFAULT_SAFE_TOOLS =
     [''heartware_read'', ''heartware_search'', ''heartware_list'', ''memory_recall'']"

section \<open>Tool execution\<close>

definition executeToolCall :: "runtime \<Rightarrow> tool_call \<Rightarrow> tool list \<Rightarrow> string awaited" where
  \<open>executeToolCall rt toolCall tools =
     (case List.find (\<lambda>t. tool_name t = tc_name toolCall) tools of
        None \<Rightarrow> Settled (''Error: Tool "'' @ tc_name toolCall @ ''" not found'')
      | Some tool \<Rightarrow>
          (case tool_execute tool (tc_arguments toolCall) of
             Settled text \<Rightarrow> Settled text
           | Rejected err \<Rightarrow> Settled (''Error: '' @ message rt err)
           | Pending \<Rightarrow> Pending))\<close>

section \<open>The sub-agent loop\<close>

text \<open>
  \<open>content || ''\<close> and \<open>content ?? ''\<close> of an optional text, and the calls of an optional
  list (\<open>toolCalls?.length\<close> is falsy for a missing and for an empty list).
\<close>

definition or_empty :: "string option \<Rightarrow> string" where
  "or_empty c = (case c of None \<Rightarrow> [] | Some text \<Rightarrow> text)"

definition or_none :: "tool_call list option \<Rightarrow> tool_call list" where
  "or_none c = (case c of None \<Rightarrow> [] | Some calls \<Rightarrow> calls)"

text \<open>
  The inner loop over the calls of a native tool-calls response: each call is executed
  and answered by two messages, in order. It gives the history it reached.
\<close>

fun executeNative ::
  "runtime \<Rightarrow> tool list \<Rightarrow> string \<Rightarrow> tool_call list \<Rightarrow> message list \<Rightarrow> message list awaited" where
  "executeNative rt tools assistantContent [] messages = Settled messages"
| "executeNative rt tools assistantContent (tc # tcs) messages =
     (case executeToolCall rt tc tools of
        Settled result \<Rightarrow>
          executeNative rt tools assistantContent tcs
            (messages @
              [\<lparr>msg_role = ''assistant'', msg_content = assistantContent,
                msg_toolCalls = Some [tc], msg_toolCallId = None\<rparr>,
               \<lparr>msg_role = ''tool'', msg_content = result,
                msg_toolCalls = None, msg_toolCallId = Some (tc_id tc)\<rparr>])
      | Rejected err \<Rightarrow> Rejected err
      | Pending \<Rightarrow> Pending)"

text \<open>
  How the closure \<open>run\<close> is left, with the variables at that moment: the counter \<open>i\<close> of
  the \<open>for\<close> loop (the number of turns that ran to their end) and the shared variable
  \<open>iterations\<close> that the deadline handler reads.
\<close>

datatype run_exit = Returned sub_agent_result | Threw error | Unsettled

record run_end =
  how :: run_exit
  at_i :: nat
  at_iterations :: nat

function run ::
  "runtime \<Rightarrow> provider \<Rightarrow> tool list \<Rightarrow> nat \<Rightarrow> nat \<Rightarrow> message list \<Rightarrow> run_end" where
  "run rt p tls i iterations0 messages =
     (if i < SUB_AGENT_MAX_ITERATIONS then
        (let iters = i + 1 in
         case chat p i messages tls of
           Pending \<Rightarrow> \<lparr>how = Unsettled, at_i = i, at_iterations = iters\<rparr>
         | Rejected err \<Rightarrow> \<lparr>how = Threw err, at_i = i, at_iterations = iters\<rparr>
         | Settled resp \<Rightarrow>
             (if resp_type resp = ''text'' then
                (case extractToolCallFromText rt (randomUUID rt i) (or_empty (resp_content resp)) of
                   Inl err \<Rightarrow> \<lparr>how = Threw err, at_i = i, at_iterations = iters\<rparr>
                 | Inr (Some toolCall) \<Rightarrow>
                     (case executeToolCall rt toolCall tls of
                        Settled result \<Rightarrow>
                          run rt p tls (i + 1) iters
                            (messages @
                              [\<lparr>msg_role = ''assistant'', msg_content = or_empty (resp_content resp),
                                msg_toolCalls = None, msg_toolCallId = None\<rparr>,
                               \<lparr>msg_role = ''tool'', msg_content = result,
                                msg_toolCalls = None, msg_toolCallId = Some (tc_id toolCall)\<rparr>])
                      | Rejected err \<Rightarrow> \<lparr>how = Threw err, at_i = i, at_iterations = iters\<rparr>
                      | Pending \<Rightarrow> \<lparr>how = Unsettled, at_i = i, at_iterations = iters\<rparr>)
                 | Inr None \<Rightarrow>
                     \<lparr>how = Returned \<lparr>success = True, response = or_empty (resp_content resp),
                        iterations = iters, providerId = provider_id p\<rparr>,
                      at_i = i, at_iterations = iters\<rparr>)
              else if resp_type resp = ''tool_calls'' \<and> or_none (resp_toolCalls resp) \<noteq> [] then
                (case executeNative rt tls (or_empty (resp_content resp))
                        (or_none (resp_toolCalls resp)) messages of
                   Settled messages' \<Rightarrow> run rt p tls (i + 1) iters messages'
                 | Rejected err \<Rightarrow> \<lparr>how = Threw err, at_i = i, at_iterations = iters\<rparr>
                 | Pending \<Rightarrow> \<lparr>how = Unsettled, at_i = i, at_iterations = iters\<rparr>)
              else run rt p tls (i + 1) iters messages))
      else
        \<lparr>how = Returned \<lparr>success = False,
           response = ''Sub-agent reached maximum iterations without completing the task.'',
           iterations = iterations0, providerId = provider_id p\<rparr>,
         at_i = i, at_iterations = iterations0\<rparr>)"
  by pat_completeness auto
termination
  by (relation "measure (\<lambda>(rt, p, tls, i, iterations0, messages). SUB_AGENT_MAX_ITERATIONS - i)")
     auto

declare run.simps [simp del]
declare trimStart.simps [simp del]
declare trimEnd.simps [simp del]
declare string_of_nat.simps [simp del]

definition systemPrompt :: "string \<Rightarrow> string" where
  "systemPrompt role =
     ''You are a focused sub-agent with the role: '' @ role @ [CHR ''.'', CHR 0x0A, CHR 0x0A] @
     ''Complete the following task and return a clear, concise result.'' @ [CHR 0x0A] @
     ''Do not ask follow-up questions '' @ [CHR 0xE2, CHR 0x80, CHR 0x94] @
     '' use your best judgment and available tools.'' @ [CHR 0x0A] @
     ''When you have finished, respond with your final answer as plain text.''"

definition seedMessages :: "string \<Rightarrow> string \<Rightarrow> message list" where
  "seedMessages role task =
     [\<lparr>msg_role = ''system'', msg_content = systemPrompt role,
       msg_toolCalls = None, msg_toolCallId = None\<rparr>,
      \<lparr>msg_role = ''user'', msg_content = task,
       msg_toolCalls = None, msg_toolCallId = None\<rparr>]"

text \<open>
  The race of \<open>run\<close> against the deadline, and the \<open>catch\<close> around it. When \<open>run\<close> is
  left unsettled the timer has rejected with \<open>Sub-agent timed out\<close>; the handler reads
  \<open>iterations\<close> as it is then. The length of the timeout (\<open>SUB_AGENT_TIMEOUT_MS\<close> by
  default) only decides which awaited call, if any, is the pending one.
\<close>

definition runSubAgent :: "runtime \<Rightarrow> sub_agent_config \<Rightarrow> sub_agent_result" where
  "runSubAgent rt config =
     (let r = run rt (cfg_provider config) (cfg_tools config) 0 0
                (seedMessages (cfg_role config) (cfg_task config))
      in case how r of
           Returned result \<Rightarrow> result
         | Threw err \<Rightarrow>
             \<lparr>success = False, response = ''Sub-agent error: '' @ message rt err,
              iterations = at_iterations r, providerId = provider_id (cfg_provider config)\<rparr>
         | Unsettled \<Rightarrow>
             \<lparr>success = False,
              response = ''Sub-agent error: '' @ message rt (Failure ''Sub-agent timed out''),
              iterations = at_iterations r, providerId = provider_id (cfg_provider config)\<rparr>)"

section \<open>The delegation tool\<close>

text \<open>
  The router: \<open>getRegistry().getForTier(tier)\<close> and the provider of
  \<open>routeWithHealth(task)\<close>; either may throw.
\<close>

record orchestrator =
  getForTier :: "json \<Rightarrow> error + provider"
  routeWithHealth :: "string \<Rightarrow> error + provider"

record delegation_config =
  orchestrator :: orchestrator
  allTools :: "tool list"
  defaultSubAgentTools :: "string list option"




definition spread :: "json \<Rightarrow> error + json list" where
  "spread v =
     (case v of
        JArr xs \<Rightarrow> Inr xs
      | JStr text \<Rightarrow> Inr (map JStr (code_points text))
      | _ \<Rightarrow> Inl NotIterable)"

text \<open>
  The set of allowed names: the safe names and the additional ones, without
  \<open>delegate_task\<close>; and the tools of the catalog whose name is in it.
\<close>

definition allowedToolNames :: "string list \<Rightarrow> json list \<Rightarrow> json set" where
  "allowedToolNames safe additional =
     set (map JStr safe @ additional) - {JStr ''delegate_task''}"

definition subAgentTools :: "tool list \<Rightarrow> json set \<Rightarrow> tool list" where
  "subAgentTools catalog allowed = filter (\<lambda>t. JStr (tool_name t) \<in> allowed) catalog"








section \<open>Concrete inputs\<close>

text \<open>
  A runtime whose parser decodes the payloads used below and refuses every other text,
  a tool that answers and one that throws, backends that answer with a text, with a
  native call, not in time or with an exception, and a catalog with its router.
\<close>

definition example_runtime :: runtime where
  \<open>example_runtime =
     \<lparr>json_parse = (\<lambda>s.
        if s = ''{"action":"heartware_read","path":"SOUL.md"}''
        then Some (JObj [(''action'', JStr ''heartware_read''), (''path'', JStr ''SOUL.md'')])
        else if s = ''{"tool":"shell","cmd":"ls"}''
        then Some (JObj [(''tool'', JStr ''shell''), (''cmd'', JStr ''ls'')])
        else if s = ''{"note":"none"}''
        then Some (JObj [(''note'', JStr ''none'')])
        else if s = ''{"action":"write","name":"notes.txt","content":"hi"}''
        then Some (JObj [(''action'', JStr ''write''), (''name'', JStr ''notes.txt''),
                         (''content'', JStr ''hi'')])
        else None),
      number_string = (\<lambda>n. ''0''),
      type_error_message = (\<lambda>e. ''TypeError''),
      randomUUID = (\<lambda>n. ''call-'' @ string_of_nat n)\<rparr>\<close>

definition example_tool :: "string \<Rightarrow> tool" where
  "example_tool n = \<lparr>tool_name = n, tool_execute = (\<lambda>args. Settled (''ran '' @ n))\<rparr>"


definition text_provider :: "string \<Rightarrow> provider" where
  "text_provider answer =
     \<lparr>provider_id = ''ollama'',
      chat = (\<lambda>n messages tls.
        Settled \<lparr>resp_type = ''text'', resp_content = Some answer, resp_toolCalls = None\<rparr>)\<rparr>"

definition calling_provider :: provider where
  "calling_provider =
     \<lparr>provider_id = ''ollama'',
      chat = (\<lambda>n messages tls.
        Settled \<lparr>resp_type = ''tool_calls'', resp_content = None,
          resp_toolCalls = Some [\<lparr>tc_id = ''c'', tc_name = ''heartware_read'',
                                  tc_arguments = []\<rparr>]\<rparr>)\<rparr>"



definition example_config :: "provider \<Rightarrow> delegation_config" where
  "example_config p =
     \<lparr>orchestrator = \<lparr>getForTier = (\<lambda>tier. Inl (Failure ''no such tier'')),
                       routeWithHealth = (\<lambda>task. Inr p)\<rparr>,
      allTools = [example_tool ''heartware_read'', example_tool ''delegate_task'',
                  example_tool ''shell'', example_tool ''memory_recall''],
      defaultSubAgentTools = None\<rparr>"

section \<open>Properties of the turn cap\<close>

lemma run_iterations_bounded:
  "iterations0 \<le> SUB_AGENT_MAX_ITERATIONS \<Longrightarrow>
   at_iterations (run rt p tls i iterations0 messages) \<le> SUB_AGENT_MAX_ITERATIONS \<and>
   (\<forall>result. how (run rt p tls i iterations0 messages) = Returned result \<longrightarrow>
      iterations result \<le> SUB_AGENT_MAX_ITERATIONS)"
proof (induction rt p tls i iterations0 messages rule: run.induct)
  case (1 rt p tls i iterations0 messages)
  show ?case
  proof (cases "i < SUB_AGENT_MAX_ITERATIONS")
    case False
    with "1.prems" show ?thesis
      by (simp add: run.simps)
  next
    case True
    then have le: "i + 1 \<le> SUB_AGENT_MAX_ITERATIONS" by simp
    show ?thesis
      using True le "1.IH"
      by (subst (1 2) run.simps)
         (auto simp: Let_def split: awaited.splits sum.splits option.splits)
  qed
qed

text \<open>
  C1. Whatever the backend answers, whatever the tools do and however the run ends
  (an answer, exhaustion, an exception or the deadline), the \<open>iterations\<close> field of the
  outcome of \<open>runSubAgent\<close> is at most the turn cap, which is 10.
\<close>

theorem C1_iterations_never_exceed_cap:
  "iterations (runSubAgent rt config) \<le> SUB_AGENT_MAX_ITERATIONS \<and>
   SUB_AGENT_MAX_ITERATIONS = 10"
  using run_iterations_bounded [of 0 rt "cfg_provider config" "cfg_tools config" 0
          "seedMessages (cfg_role config) (cfg_task config)"]
  by (auto simp: runSubAgent_def Let_def SUB_AGENT_MAX_ITERATIONS_def split: run_exit.splits)

section \<open>Properties of the capability filter\<close>




text \<open>
  C10. The tools granted are tools of the catalog. A requested name that no tool of the
  catalog bears is dropped without an error: spreading the request succeeds, no granted
  tool has that name, and the granted list is the one the request without that name
  gives.
\<close>

theorem C10_granted_tools_from_catalog:
  assumes "n \<notin> tool_name ` set catalog"
  shows "set (subAgentTools catalog (allowedToolNames safe (xs @ JStr n # ys))) \<subseteq> set catalog \<and>
         n \<notin> tool_name ` set (subAgentTools catalog (allowedToolNames safe (xs @ JStr n # ys))) \<and>
         subAgentTools catalog (allowedToolNames safe (xs @ JStr n # ys)) =
           subAgentTools catalog (allowedToolNames safe (xs @ ys)) \<and>
         spread (JArr (xs @ JStr n # ys)) = Inr (xs @ JStr n # ys)"
proof -
  have "subAgentTools catalog (allowedToolNames safe (xs @ JStr n # ys)) =
        subAgentTools catalog (allowedToolNames safe (xs @ ys))"
    unfolding subAgentTools_def
    using assms by (intro filter_cong) (auto simp: allowedToolNames_def)
  then show ?thesis
    using assms by (auto simp: subAgentTools_def spread_def)
qed

theorem C10_unknown_name_witness:
  "''no_such_tool'' \<notin> tool_name ` set (allTools (example_config calling_provider)) \<and>
   map tool_name (subAgentTools (allTools (example_config calling_provider))
      (allowedToolNames DEFAULT_SAFE_TOOLS ([JStr ''shell''] @ JStr ''no_such_tool'' # []))) =
     [''heartware_read'', ''shell'', ''memory_recall'']"
  using C10_granted_tools_from_catalog
    [of "''no_such_tool''" "allTools (example_config calling_provider)" DEFAULT_SAFE_TOOLS
        "[JStr ''shell'']" "[]"]
  by (simp add: example_config_def example_tool_def subAgentTools_def allowedToolNames_def
        DEFAULT_SAFE_TOOLS_def)

section \<open>Properties of the tool executor\<close>

lemma executeToolCall_never_rejects: "executeToolCall rt tc tls \<noteq> Rejected err"
  by (simp add: executeToolCall_def split: option.splits awaited.splits)


lemma executeNative_never_rejects: "executeNative rt tls c tcs msgs \<noteq> Rejected err"
  by (induction tcs arbitrary: msgs)
     (auto simp: executeToolCall_never_rejects split: awaited.splits)






section \<open>Properties of the execution loop\<close>

text \<open>
  C8. In a turn (the one with loop counter \<open>i\<close>, turn number \<open>i + 1\<close>) where the backend
  answers with a text from which no tool call is extracted, the loop ends with
  \<open>success = True\<close>, the backend's text as response and the turn number as
  \<open>iterations\<close>. When this happens in the first turn, \<open>runSubAgent\<close> returns that outcome
  with \<open>iterations = 1\<close>.
\<close>

theorem C8_plain_text_is_final:
  assumes "i < SUB_AGENT_MAX_ITERATIONS"
    and "chat p i msgs tls = Settled resp"
    and "resp_type resp = ''text''"
    and "extractToolCallFromText rt (randomUUID rt i) (or_empty (resp_content resp)) = Inr None"
  shows "how (run rt p tls i it msgs) =
           Returned \<lparr>success = True, response = or_empty (resp_content resp),
                     iterations = i + 1, providerId = provider_id p\<rparr> \<and>
         (i = 0 \<and> p = cfg_provider config \<and> tls = cfg_tools config \<and>
          msgs = seedMessages (cfg_role config) (cfg_task config) \<longrightarrow>
            runSubAgent rt config =
              \<lparr>success = True, response = or_empty (resp_content resp),
               iterations = 1, providerId = provider_id p\<rparr>)"
proof -
  have "run rt p tls i it msgs =
          \<lparr>how = Returned \<lparr>success = True, response = or_empty (resp_content resp),
                           iterations = i + 1, providerId = provider_id p\<rparr>,
           at_i = i, at_iterations = i + 1\<rparr>" for it
    using assms by (subst run.simps) (simp add: Let_def)
  then show ?thesis
    by (auto simp: runSubAgent_def)
qed

theorem C8_done_on_first_turn_witness:
  "(0::nat) < SUB_AGENT_MAX_ITERATIONS \<and>
   extractToolCallFromText example_runtime (randomUUID example_runtime 0) ''Done.'' = Inr None \<and>
   runSubAgent example_runtime
     \<lparr>cfg_task = ''Summarize doc'', cfg_role = ''Summarizer'',
      cfg_provider = text_provider ''Done.'', cfg_tools = [], cfg_timeout = None\<rparr> =
     \<lparr>success = True, response = ''Done.'', iterations = 1, providerId = ''ollama''\<rparr>"
proof -
  have cap: "(0::nat) < SUB_AGENT_MAX_ITERATIONS"
    by (simp add: SUB_AGENT_MAX_ITERATIONS_def)
  have none: "extractToolCallFromText example_runtime (randomUUID example_runtime 0)
      (or_empty (resp_content
         \<lparr>resp_type = ''text'', resp_content = Some ''Done.'', resp_toolCalls = None\<rparr>)) = Inr None"
    by (simp add: extractToolCallFromText_def or_empty_def lastIndexOf_def Let_def)
  have chat: "chat (text_provider ''Done.'') 0 (seedMessages ''Summarizer'' ''Summarize doc'') [] =
      Settled \<lparr>resp_type = ''text'', resp_content = Some ''Done.'', resp_toolCalls = None\<rparr>"
    by (simp add: text_provider_def)
  show ?thesis
    using cap none
      C8_plain_text_is_final [OF cap chat _ none, of 0
        "\<lparr>cfg_task = ''Summarize doc'', cfg_role = ''Summarizer'',
          cfg_provider = text_provider ''Done.'', cfg_tools = [], cfg_timeout = None\<rparr>"]
    by (simp add: or_empty_def text_provider_def)
qed




section \<open>Properties of the deadline and the catch\<close>





section \<open>Properties of the delegation entry point\<close>






section \<open>Properties of tool-call extraction\<close>

lemma indexOf_bounds: "- 1 \<le> indexOf s c \<and> indexOf s c < int (length s)"
  by (induction s) (auto simp: Let_def)

lemma indexOf_absent: "indexOf s c = - 1 \<longleftrightarrow> c \<notin> set s"
proof (induction s)
  case Nil
  show ?case by simp
next
  case (Cons x xs)
  with indexOf_bounds [of xs c] show ?case
    by (auto simp: Let_def)
qed

lemma lastIndexOf_absent: "lastIndexOf s c = - 1 \<longleftrightarrow> c \<notin> set s"
  using indexOf_bounds [of "rev s" c] indexOf_absent [of "rev s" c]
  by (auto simp: lastIndexOf_def Let_def)

lemma toolCallOfParsed_keyless:
  "(\<And>kvs. parsed = JObj kvs \<Longrightarrow>
      \<not> has_key ''action'' kvs \<and> \<not> has_key ''tool'' kvs \<and> \<not> has_key ''name'' kvs) \<Longrightarrow>
   toolCallOfParsed rt uid parsed = Inr None"
  by (cases parsed) (auto simp: toolCallOfParsed_def TOOL_ACTION_KEYS_def)

text \<open>
  C6. The extractor gives "not found", and does not throw, for a text with no opening
  brace, with no closing brace, or whose last closing brace does not come after its first
  opening brace; for a text whose slice between the braces \<open>JSON.parse\<close> refuses; and for
  one whose slice parses to something that is not an object or to an object with none of
  the keys \<open>action\<close>, \<open>tool\<close> and \<open>name\<close>.
\<close>

theorem C6_extraction_fails_closed:
  assumes "CHR ''{'' \<notin> set text \<or> CHR ''}'' \<notin> set text \<or>
           lastIndexOf text CHR ''}'' \<le> indexOf text CHR ''{'' \<or>
           json_parse rt (braceSlice text) = None \<or>
           (\<exists>parsed. json_parse rt (braceSlice text) = Some parsed \<and>
              (\<forall>kvs. parsed = JObj kvs \<longrightarrow>
                 \<not> has_key ''action'' kvs \<and> \<not> has_key ''tool'' kvs \<and> \<not> has_key ''name'' kvs))"
  shows "extractToolCallFromText rt uid text = Inr None"
proof -
  have no_braces: "extractToolCallFromText rt uid text = Inr None"
    if "indexOf text CHR ''{'' = - 1 \<or> lastIndexOf text CHR ''}'' = - 1 \<or>
        lastIndexOf text CHR ''}'' \<le> indexOf text CHR ''{''"
    using that by (simp add: extractToolCallFromText_def Let_def)
  have unparsed: "extractToolCallFromText rt uid text = Inr None"
    if "json_parse rt (braceSlice text) = None"
    using that by (simp add: extractToolCallFromText_def Let_def)
  have keyless: "extractToolCallFromText rt uid text = Inr None"
    if "json_parse rt (braceSlice text) = Some parsed"
      and "\<forall>kvs. parsed = JObj kvs \<longrightarrow>
         \<not> has_key ''action'' kvs \<and> \<not> has_key ''tool'' kvs \<and> \<not> has_key ''name'' kvs"
    for parsed
  proof -
    have "toolCallOfParsed rt uid parsed = Inr None"
      using that(2) by (intro toolCallOfParsed_keyless) simp
    with that(1) show ?thesis
      by (simp add: extractToolCallFromText_def Let_def)
  qed
  from assms show ?thesis
  proof (elim disjE exE conjE)
    assume "CHR ''{'' \<notin> set text"
    then have "indexOf text CHR ''{'' = - 1"
      by (simp add: indexOf_absent)
    then show ?thesis
      using no_braces by simp
  next
    assume "CHR ''}'' \<notin> set text"
    then have "lastIndexOf text CHR ''}'' = - 1"
      by (simp add: lastIndexOf_absent)
    then show ?thesis
      using no_braces by simp
  next
    assume "lastIndexOf text CHR ''}'' \<le> indexOf text CHR ''{''"
    then show ?thesis
      using no_braces by simp
  next
    assume "json_parse rt (braceSlice text) = None"
    then show ?thesis
      by (rule unparsed)
  next
    fix parsed
    assume "json_parse rt (braceSlice text) = Some parsed"
      and "\<forall>kvs. parsed = JObj kvs \<longrightarrow>
         \<not> has_key ''action'' kvs \<and> \<not> has_key ''tool'' kvs \<and> \<not> has_key ''name'' kvs"
    then show ?thesis
      by (rule keyless)
  qed
qed

theorem C6_not_found_witness:
  \<open>CHR ''{'' \<notin> set ''Done.'' \<and>
   extractToolCallFromText example_runtime ''u'' ''Done.'' = Inr None \<and>
   lastIndexOf ''} then {'' CHR ''}'' \<le> indexOf ''} then {'' CHR ''{'' \<and>
   extractToolCallFromText example_runtime ''u'' ''} then {'' = Inr None \<and>
   json_parse example_runtime (braceSlice ''I call {oops} now'') = None \<and>
   extractToolCallFromText example_runtime ''u'' ''I call {oops} now'' = Inr None \<and>
   json_parse example_runtime (braceSlice ''{"note":"none"}'') =
     Some (JObj [(''note'', JStr ''none'')]) \<and>
   extractToolCallFromText example_runtime ''u'' ''{"note":"none"}'' = Inr None\<close>
proof -
  have a: "CHR ''{'' \<notin> set ''Done.''"
    by simp
  have b: "lastIndexOf ''} then {'' CHR ''}'' \<le> indexOf ''} then {'' CHR ''{''"
    by code_simp
  have c: "json_parse example_runtime (braceSlice ''I call {oops} now'') = None"
    by code_simp
  have d: \<open>json_parse example_runtime (braceSlice ''{"note":"none"}'') =
     Some (JObj [(''note'', JStr ''none'')])\<close>
    by code_simp
  have keys: "\<forall>kvs. JObj [(''note'', JStr ''none'')] = JObj kvs \<longrightarrow>
      \<not> has_key ''action'' kvs \<and> \<not> has_key ''tool'' kvs \<and> \<not> has_key ''name'' kvs"
    by (simp add: has_key_def)
  note closed = C6_extraction_fails_closed [where rt = example_runtime and uid = "''u''"]
  have e1: "extractToolCallFromText example_runtime ''u'' ''Done.'' = Inr None"
    by (rule closed, rule disjI1, rule a)
  have e2: "extractToolCallFromText example_runtime ''u'' ''} then {'' = Inr None"
    by (rule closed, rule disjI2, rule disjI2, rule disjI1, rule b)
  have e3: "extractToolCallFromText example_runtime ''u'' ''I call {oops} now'' = Inr None"
    by (rule closed, rule disjI2, rule disjI2, rule disjI2, rule disjI1, rule c)
  have e4: \<open>extractToolCallFromText example_runtime ''u'' ''{"note":"none"}'' = Inr None\<close>
    by (rule closed, rule disjI2, rule disjI2, rule disjI2, rule disjI2, rule exI, rule conjI,
        rule d, rule keys)
  from a e1 b e2 c e3 d e4 show ?thesis
    by (intro conjI)
qed

lemma toolCallOfParsed_found:
  assumes "toolCallOfParsed rt uid parsed = Inr (Some tc)"
  shows "\<exists>kvs v. parsed = JObj kvs \<and>
           map_of kvs (if has_key ''action'' kvs then ''action''
                       else if has_key ''tool'' kvs then ''tool'' else ''name'') = Some v \<and>
           js_String rt v = Inr (tc_name tc) \<and> tc_name tc \<noteq> [] \<and> tc_id tc = uid \<and>
           tc_arguments tc = normalizeToolArguments
             (filter (\<lambda>kv. fst kv \<noteq> ''action'' \<and> fst kv \<noteq> ''tool'' \<and> fst kv \<noteq> ''name'') kvs)"
proof (cases parsed)
  case (JObj kvs)
  with assms show ?thesis
    by (auto simp: toolCallOfParsed_def TOOL_ACTION_KEYS_def has_key_def
             split: option.splits sum.splits if_splits)
qed (use assms in \<open>simp_all add: toolCallOfParsed_def\<close>)

lemma normalizeToolArguments_filename:
  "map_of (normalizeToolArguments args) ''filename'' =
     (case map_of args ''filename'' of
        Some v \<Rightarrow> Some v
      | None \<Rightarrow> (case map_of args ''file_path'' of
                   Some v \<Rightarrow> Some v
                 | None \<Rightarrow> map_of args ''path''))"
  by (auto simp: normalizeToolArguments_def has_key_def Let_def map_add_def
           split: option.splits)

lemma normalizeToolArguments_other:
  "k \<noteq> ''filename'' \<Longrightarrow> map_of (normalizeToolArguments args) k = map_of args k"
  by (auto simp: normalizeToolArguments_def has_key_def Let_def map_add_def
           split: option.splits)

lemma toolCallOfParsed_round_trip:
  assumes "name \<noteq> []"
    and "\<not> has_key ''action'' params" "\<not> has_key ''tool'' params" "\<not> has_key ''name'' params"
    and "\<not> has_key ''file_path'' params" "\<not> has_key ''path'' params"
  shows "toolCallOfParsed rt uid (JObj ((''action'', JStr name) # params)) =
           Inr (Some \<lparr>tc_id = uid, tc_name = name, tc_arguments = params\<rparr>)"
proof -
  have "filter (\<lambda>kv. fst kv \<notin> set TOOL_ACTION_KEYS) params = params"
    using assms(2-4)
    by (intro filter_True) (force simp: TOOL_ACTION_KEYS_def has_key_def map_of_eq_None_iff)
  moreover have "normalizeToolArguments params = params"
    using assms(5,6)
    by (auto simp: normalizeToolArguments_def has_key_def Let_def split: option.splits)
  ultimately show ?thesis
    using assms(1)
    by (simp add: toolCallOfParsed_def TOOL_ACTION_KEYS_def has_key_def)
qed

text \<open>
  C7, as the code has it. When the extractor finds a call, the slice between the braces
  parsed to an object; the name of the call is the text of the value of the first key
  present among \<open>action\<close>, \<open>tool\<close>, \<open>name\<close>, in that order (a text value is taken as it
  is, another value is converted by \<open>String\<close>); and its arguments are the entries of the
  object under keys other than \<open>action\<close>, \<open>tool\<close> and \<open>name\<close>, all three being removed
  whichever of them gave the name, after normalization. Normalization leaves every key
  but \<open>filename\<close> as it is, and \<open>filename\<close>, when absent, takes the value of \<open>file_path\<close>
  or, failing that, of \<open>path\<close>. A payload that has a non-empty text under \<open>action\<close> and
  no other alias key, no \<open>file_path\<close> and no \<open>path\<close> is recovered with the same name and
  the same arguments.
\<close>

theorem C7_recovered_call:
  assumes "extractToolCallFromText rt uid text = Inr (Some tc)"
  shows "(\<exists>kvs v. json_parse rt (braceSlice text) = Some (JObj kvs) \<and>
            map_of kvs (if has_key ''action'' kvs then ''action''
                        else if has_key ''tool'' kvs then ''tool'' else ''name'') = Some v \<and>
            js_String rt v = Inr (tc_name tc) \<and>
            (case v of JStr name \<Rightarrow> tc_name tc = name | _ \<Rightarrow> True) \<and>
            tc_id tc = uid \<and>
            tc_arguments tc = normalizeToolArguments
              (filter (\<lambda>kv. fst kv \<noteq> ''action'' \<and> fst kv \<noteq> ''tool'' \<and> fst kv \<noteq> ''name'') kvs)) \<and>
         map_of (normalizeToolArguments args) ''filename'' =
           (case map_of args ''filename'' of
              Some v \<Rightarrow> Some v
            | None \<Rightarrow> (case map_of args ''file_path'' of
                         Some v \<Rightarrow> Some v
                       | None \<Rightarrow> map_of args ''path'')) \<and>
         (k \<noteq> ''filename'' \<longrightarrow> map_of (normalizeToolArguments args) k = map_of args k) \<and>
         (json_parse rt (braceSlice text) = Some (JObj ((''action'', JStr name) # params)) \<and>
          name \<noteq> [] \<and>
          \<not> has_key ''action'' params \<and> \<not> has_key ''tool'' params \<and> \<not> has_key ''name'' params \<and>
          \<not> has_key ''file_path'' params \<and> \<not> has_key ''path'' params \<longrightarrow>
            tc = \<lparr>tc_id = uid, tc_name = name, tc_arguments = params\<rparr>)"
proof -
  from assms obtain parsed where
    parsed: "json_parse rt (braceSlice text) = Some parsed"
    and found: "toolCallOfParsed rt uid parsed = Inr (Some tc)"
    by (auto simp: extractToolCallFromText_def Let_def split: if_splits option.splits)
  from toolCallOfParsed_found [OF found] obtain kvs v where
    kv: "parsed = JObj kvs"
      "map_of kvs (if has_key ''action'' kvs then ''action''
                   else if has_key ''tool'' kvs then ''tool'' else ''name'') = Some v"
      "js_String rt v = Inr (tc_name tc)" "tc_id tc = uid"
      "tc_arguments tc = normalizeToolArguments
         (filter (\<lambda>kv. fst kv \<noteq> ''action'' \<and> fst kv \<noteq> ''tool'' \<and> fst kv \<noteq> ''name'') kvs)"
    by blast
  from kv(3) have "case v of JStr name \<Rightarrow> tc_name tc = name | _ \<Rightarrow> True"
    by (cases v) simp_all
  with parsed kv have first: "\<exists>kvs v. json_parse rt (braceSlice text) = Some (JObj kvs) \<and>
            map_of kvs (if has_key ''action'' kvs then ''action''
                        else if has_key ''tool'' kvs then ''tool'' else ''name'') = Some v \<and>
            js_String rt v = Inr (tc_name tc) \<and>
            (case v of JStr name \<Rightarrow> tc_name tc = name | _ \<Rightarrow> True) \<and>
            tc_id tc = uid \<and>
            tc_arguments tc = normalizeToolArguments
              (filter (\<lambda>kv. fst kv \<noteq> ''action'' \<and> fst kv \<noteq> ''tool'' \<and> fst kv \<noteq> ''name'') kvs)"
    by blast
  have round_trip: "tc = \<lparr>tc_id = uid, tc_name = name, tc_arguments = params\<rparr>"
    if "json_parse rt (braceSlice text) = Some (JObj ((''action'', JStr name) # params))"
      "name \<noteq> []"
      "\<not> has_key ''action'' params" "\<not> has_key ''tool'' params" "\<not> has_key ''name'' params"
      "\<not> has_key ''file_path'' params" "\<not> has_key ''path'' params"
    using toolCallOfParsed_round_trip [OF that(2-7), of rt uid] that(1) parsed found
    by simp
  from first round_trip normalizeToolArguments_filename [of args]
    normalizeToolArguments_other [of k args]
  show ?thesis
    by blast
qed

theorem C7_recovered_call_witness:
  \<open>extractToolCallFromText example_runtime ''u''
     ''Let me read it: {"action":"heartware_read","path":"SOUL.md"}'' =
     Inr (Some \<lparr>tc_id = ''u'', tc_name = ''heartware_read'',
                 tc_arguments = [(''path'', JStr ''SOUL.md''), (''filename'', JStr ''SOUL.md'')]\<rparr>) \<and>
   json_parse example_runtime
     (braceSlice ''Let me read it: {"action":"heartware_read","path":"SOUL.md"}'') =
     Some (JObj [(''action'', JStr ''heartware_read''), (''path'', JStr ''SOUL.md'')]) \<and>
   map_of (normalizeToolArguments [(''path'', JStr ''SOUL.md'')]) ''filename'' =
     Some (JStr ''SOUL.md'')\<close>
proof -
  have found: \<open>extractToolCallFromText example_runtime ''u''
     ''Let me read it: {"action":"heartware_read","path":"SOUL.md"}'' =
     Inr (Some \<lparr>tc_id = ''u'', tc_name = ''heartware_read'',
                 tc_arguments = [(''path'', JStr ''SOUL.md''), (''filename'', JStr ''SOUL.md'')]\<rparr>)\<close>
    by code_simp
  have parsed: \<open>json_parse example_runtime
     (braceSlice ''Let me read it: {"action":"heartware_read","path":"SOUL.md"}'') =
     Some (JObj [(''action'', JStr ''heartware_read''), (''path'', JStr ''SOUL.md'')])\<close>
    by code_simp
  from C7_recovered_call [OF found, where args = "[(''path'', JStr ''SOUL.md'')]"]
  have "map_of (normalizeToolArguments [(''path'', JStr ''SOUL.md'')]) ''filename'' =
     Some (JStr ''SOUL.md'')"
    by simp
  with found parsed show ?thesis
    by (intro conjI)
qed

text \<open>
  The claim as written fails where it says that all remaining keys form the arguments:
  in this payload \<open>action\<close> gives the name, the key \<open>name\<close> remains, and it is not among
  the arguments.
\<close>

theorem C7_alias_key_dropped_counterexample:
  \<open>extractToolCallFromText example_runtime ''u''
     ''{"action":"write","name":"notes.txt","content":"hi"}'' =
     Inr (Some \<lparr>tc_id = ''u'', tc_name = ''write'',
                 tc_arguments = [(''content'', JStr ''hi'')]\<rparr>) \<and>
   extractToolCallFromText example_runtime ''u''
     ''{"action":"write","name":"notes.txt","content":"hi"}'' \<noteq>
     Inr (Some \<lparr>tc_id = ''u'', tc_name = ''write'',
                 tc_arguments = [(''name'', JStr ''notes.txt''), (''content'', JStr ''hi'')]\<rparr>)\<close>
proof -
  have \<open>extractToolCallFromText example_runtime ''u''
     ''{"action":"write","name":"notes.txt","content":"hi"}'' =
     Inr (Some \<lparr>tc_id = ''u'', tc_name = ''write'',
                 tc_arguments = [(''content'', JStr ''hi'')]\<rparr>)\<close>
    by code_simp
  then show ?thesis
    by simp
qed

end
